theory Spec2Isabelle
  imports Complex_Main
begin

section \<open>Errors and numeric helpers\<close>

text \<open>
  Python floats are modelled as exact real numbers: rounding and NaN are outside the model.
  Every raise of the source is a value of \<open>error\<close> on the left of a sum.
\<close>

datatype error =
  ParserException | ValidationError | RuntimeError | ZeroDivisionError | IndexError | TypeError

definition bind_result :: "error + 'a \<Rightarrow> ('a \<Rightarrow> error + 'b) \<Rightarrow> error + 'b" where
  "bind_result m f = (case m of Inl e \<Rightarrow> Inl e | Inr x \<Rightarrow> f x)"

text \<open>\<open>np.clip(a, a_min, a_max)\<close> is \<open>minimum(a_max, maximum(a, a_min))\<close>.\<close>

definition clip :: "real \<Rightarrow> real \<Rightarrow> real \<Rightarrow> real" where
  "clip a a_min a_max = min a_max (max a a_min)"

section \<open>VariableLocation\<close>

text \<open>
  The fields, then the two private attributes \<open>_is_action\<close> and \<open>_original_position\<close>
  (both \<open>None\<close> after construction).
\<close>

record VariableLocation =
  current_position :: real
  min_value :: real
  max_value :: real
  n_steps :: "int option"
  step :: real
  priv_is_action :: "bool option"
  priv_original_position :: "real option"

text \<open>
  Validator of \<open>min_value\<close> and \<open>max_value\<close>; the second argument is the already
  validated \<open>current_position\<close> (\<open>None\<close> when it is not among the validated values).
\<close>

definition set_variable_to_current_position_if_not_given ::
  "real option \<Rightarrow> real option \<Rightarrow> error + real" where
  "set_variable_to_current_position_if_not_given v cur =
     (case v of
        None \<Rightarrow> (case cur of Some c \<Rightarrow> Inr c | None \<Rightarrow> Inl ParserException)
      | Some x \<Rightarrow> Inr x)"

text \<open>
  Second validator of \<open>max_value\<close>; it runs on the value the first one returned. The
  second argument is the validated \<open>min_value\<close> (\<open>None\<close> when it is not among the validated
  values).
\<close>

definition max_value_is_greater_than_min_value ::
  "real option \<Rightarrow> real option \<Rightarrow> error + real" where
  "max_value_is_greater_than_min_value v mn =
     (case mn of
        None \<Rightarrow> Inl ParserException
      | Some m \<Rightarrow>
          (case v of
             None \<Rightarrow> Inl RuntimeError
           | Some x \<Rightarrow> if x < m then Inl ParserException else Inr x))"

text \<open>The field type \<open>Optional[conint(ge=1)]\<close> of \<open>n_steps\<close>.\<close>

definition validate_n_steps :: "int option \<Rightarrow> error + int option" where
  "validate_n_steps ns =
     (case ns of None \<Rightarrow> Inr None | Some k \<Rightarrow> if 1 \<le> k then Inr (Some k) else Inl ValidationError)"

text \<open>The default of \<open>n_steps\<close> when the argument is omitted.\<close>

definition n_steps_default :: "int option" where
  "n_steps_default = Some 10"

text \<open>The root validator: the value stored in \<open>step\<close>.\<close>

definition define_step :: "real option \<Rightarrow> int option \<Rightarrow> real \<Rightarrow> real \<Rightarrow> real" where
  "define_step stp ns mn mx =
     (let value_range = mx - mn in
      case stp of
        Some s \<Rightarrow> s
      | None \<Rightarrow> value_range / real_of_int (case ns of None \<Rightarrow> 10 | Some k \<Rightarrow> k))"

text \<open>
  Construction: the field validators in declaration order, then the root validator.
  Arguments: \<open>current_position\<close>, \<open>min_value\<close>, \<open>max_value\<close>, \<open>n_steps\<close>, \<open>step\<close>.
\<close>

definition VariableLocation_init ::
  "real \<Rightarrow> real option \<Rightarrow> real option \<Rightarrow> int option \<Rightarrow> real option \<Rightarrow> error + VariableLocation" where
  "VariableLocation_init cur mn mx ns stp =
     bind_result (set_variable_to_current_position_if_not_given mn (Some cur)) (\<lambda>mn1.
     bind_result (set_variable_to_current_position_if_not_given mx (Some cur)) (\<lambda>mx0.
     bind_result (max_value_is_greater_than_min_value (Some mx0) (Some mn1)) (\<lambda>mx1.
     bind_result (validate_n_steps ns) (\<lambda>ns1.
       Inr \<lparr>current_position = cur, min_value = mn1, max_value = mx1, n_steps = ns1,
            step = define_step stp ns1 mn1 mx1,
            priv_is_action = None, priv_original_position = None\<rparr>))))"

definition is_action :: "VariableLocation \<Rightarrow> bool \<times> VariableLocation" where
  "is_action self =
     (case priv_is_action self of
        None \<Rightarrow>
          (let b = (max_value self > current_position self \<or> min_value self < current_position self)
           in (b, self\<lparr>priv_is_action := Some b\<rparr>))
      | Some b \<Rightarrow> (b, self))"

definition snapshot_original :: "VariableLocation \<Rightarrow> VariableLocation" where
  "snapshot_original self =
     (if priv_original_position self = None
      then self\<lparr>priv_original_position := Some (current_position self)\<rparr>
      else self)"

definition apply_discrete_action :: "bool \<Rightarrow> VariableLocation \<Rightarrow> real \<times> VariableLocation" where
  "apply_discrete_action increasing self =
     (let self1 = snapshot_original self;
          stp = (if increasing then step self1 else - step self1);
          self2 = self1\<lparr>current_position :=
                    clip (current_position self1 + stp) (min_value self1) (max_value self1)\<rparr>
      in (current_position self2, self2))"

definition apply_continuos_action :: "real \<Rightarrow> VariableLocation \<Rightarrow> real \<times> VariableLocation" where
  "apply_continuos_action val self =
     (let self1 = snapshot_original self;
          delta = max_value self1 - min_value self1;
          descaled_value = ((val + 1) / 2) * delta;
          self2 = self1\<lparr>current_position :=
                    clip (descaled_value + min_value self1) (min_value self1) (max_value self1)\<rparr>
      in (current_position self2, self2))"

definition reset :: "VariableLocation \<Rightarrow> VariableLocation" where
  "reset self =
     (case priv_original_position self of
        Some p \<Rightarrow> self\<lparr>current_position := p\<rparr>
      | None \<Rightarrow> self)"

text \<open>Sequences of calls on one variable, applied left to right.\<close>

datatype action_call = Discrete bool | Continuos real

fun apply_call :: "action_call \<Rightarrow> VariableLocation \<Rightarrow> VariableLocation" where
  "apply_call (Discrete b) self = snd (apply_discrete_action b self)"
| "apply_call (Continuos x) self = snd (apply_continuos_action x self)"

fun apply_calls :: "action_call list \<Rightarrow> VariableLocation \<Rightarrow> VariableLocation" where
  "apply_calls [] self = self"
| "apply_calls (c # cs) self = apply_calls cs (apply_call c self)"


section \<open>SplineSpaceDimension\<close>

record SplineSpaceDimension =
  name :: string
  number_of_points :: int
  degree :: int
  knot_vector :: "real list option"

datatype log_record = LogDebug | LogWarning

text \<open>
  \<open>np.linspace(start, stop, num)\<close> for \<open>num \<ge> 0\<close>: a single sample is \<open>start\<close>, otherwise
  \<open>num\<close> samples with spacing \<open>(stop - start) / (num - 1)\<close>. The callers below only pass
  \<open>num \<ge> 1\<close>.
\<close>

definition linspace :: "real \<Rightarrow> real \<Rightarrow> int \<Rightarrow> real list" where
  "linspace start stop num =
     (if num = 1 then [start]
      else map (\<lambda>i. start + real i * ((stop - start) / real_of_int (num - 1))) [0..<nat num])"

definition zeros :: "int \<Rightarrow> real list" where
  "zeros k = replicate (nat k) 0"

definition ones :: "int \<Rightarrow> real list" where
  "ones k = replicate (nat k) 1"

text \<open>
  Validator of \<open>knot_vector\<close>. The last three arguments are the validated \<open>name\<close>,
  \<open>number_of_points\<close> and \<open>degree\<close> (\<open>None\<close> when absent from the validated values). The
  result carries the records sent to the parser logger and the value the validator returns;
  the branch of a supplied list of the wrong length ends without a \<open>return\<close>, so the
  validator returns Python's \<open>None\<close> there.
\<close>

definition validate_knot_vector ::
  "real list option \<Rightarrow> string option \<Rightarrow> int option \<Rightarrow> int option
     \<Rightarrow> error + (log_record list \<times> real list option)" where
  "validate_knot_vector v nm nop deg =
     (case (nm, nop, deg) of
        (Some _, Some p, Some d) \<Rightarrow>
          (let n_knots = p + d + 1 in
           case v of
             Some ks \<Rightarrow>
               if int (length ks) = n_knots then Inr ([LogDebug], Some ks)
               else Inr ([LogDebug, LogWarning], None)
           | None \<Rightarrow>
               (let starting_ending = d + 1;
                    middle = n_knots - (2 * starting_ending)
                in if middle \<ge> 0
                   then Inr ([LogDebug],
                          Some (zeros (starting_ending - 1) @ linspace 0 1 (middle + 2)
                                @ ones (starting_ending - 1)))
                   else Inr ([LogDebug, LogWarning],
                          Some (zeros starting_ending @ ones starting_ending))))
      | _ \<Rightarrow> Inl ParserException)"

text \<open>
  Construction of an axis: the \<open>conint(ge=1)\<close> fields, then the knot vector validator,
  whose return value is what the object stores.
\<close>

definition SplineSpaceDimension_init ::
  "string \<Rightarrow> int \<Rightarrow> int \<Rightarrow> real list option \<Rightarrow> error + (log_record list \<times> SplineSpaceDimension)" where
  "SplineSpaceDimension_init nm p d kv =
     (if p < 1 \<or> d < 1 then Inl ValidationError
      else bind_result (validate_knot_vector kv (Some nm) (Some p) (Some d)) (\<lambda>(logs, kv1).
             Inr (logs, \<lparr>name = nm, number_of_points = p, degree = d, knot_vector = kv1\<rparr>)))"

section \<open>SplineDefinition: the control point grid\<close>

text \<open>
  A control point coordinate as the field type allows it: a float or a VariableLocation.
  An entry of the list under construction is a bare VariableLocation (after the first
  axis) or a list.
\<close>

datatype cp_item = RawFloat real | VarLoc VariableLocation

datatype grid_entry = Single VariableLocation | Tuple "cp_item list"

text \<open>\<open>current_list if type(current_list) is list else [current_list]\<close>\<close>

fun as_list :: "grid_entry \<Rightarrow> cp_item list" where
  "as_list (Tuple xs) = xs"
| "as_list (Single v) = [VarLoc v]"

text \<open>\<open>1./((n_p-1)*2)\<close>: Python raises on a zero divisor.\<close>

definition dim_spacing_of :: "int \<Rightarrow> error + real" where
  "dim_spacing_of n_p =
     (if (n_p - 1) * 2 = 0 then Inl ZeroDivisionError
      else Inr (1 / real_of_int ((n_p - 1) * 2)))"

text \<open>
  The first loop: the value range and the half spacing of every axis, as the pairs that
  \<open>zip(dimension_lists, dim_spacings)\<close> later walks through.
\<close>

fun value_ranges :: "int list \<Rightarrow> error + (real list \<times> real) list" where
  "value_ranges [] = Inr []"
| "value_ranges (n_p # ns) =
     bind_result (dim_spacing_of n_p) (\<lambda>spacing.
     bind_result (value_ranges ns) (\<lambda>rest.
       Inr ((linspace 0 1 n_p, spacing) # rest)))"

text \<open>
  The VariableLocation created for one grid value; the source writes the three cases out
  in both branches of the loop.
\<close>

definition grid_variable :: "real \<Rightarrow> real \<Rightarrow> error + VariableLocation" where
  "grid_variable element dim_spacing =
     (if element = 0 then
        VariableLocation_init element (Some element) (Some (element + dim_spacing)) n_steps_default None
      else if element = 1 then
        VariableLocation_init element (Some (element - dim_spacing)) (Some element) n_steps_default None
      else
        VariableLocation_init element (Some (element - dim_spacing)) (Some (element + dim_spacing))
          n_steps_default None)"

text \<open>First iteration: \<open>v\<close> is initialised with one VariableLocation per value.\<close>

fun first_dimension :: "real list \<Rightarrow> real \<Rightarrow> error + grid_entry list" where
  "first_dimension [] spacing = Inr []"
| "first_dimension (element # es) spacing =
     bind_result (grid_variable element spacing) (\<lambda>var.
     bind_result (first_dimension es spacing) (\<lambda>rest.
       Inr (Single var # rest)))"

text \<open>Later iterations, inner loop: every value of the new axis in front of one entry.\<close>

fun prepend_dimension :: "grid_entry \<Rightarrow> real list \<Rightarrow> real \<Rightarrow> error + grid_entry list" where
  "prepend_dimension current_list [] spacing = Inr []"
| "prepend_dimension current_list (element # es) spacing =
     bind_result (grid_variable element spacing) (\<lambda>var.
     bind_result (prepend_dimension current_list es spacing) (\<lambda>rest.
       Inr (Tuple (VarLoc var # as_list current_list) # rest)))"

text \<open>Later iterations, outer loop over the entries built so far.\<close>

fun successive_dimension :: "grid_entry list \<Rightarrow> real list \<Rightarrow> real \<Rightarrow> error + grid_entry list" where
  "successive_dimension [] inner_dim spacing = Inr []"
| "successive_dimension (current_list # cs) inner_dim spacing =
     bind_result (prepend_dimension current_list inner_dim spacing) (\<lambda>new_entries.
     bind_result (successive_dimension cs inner_dim spacing) (\<lambda>rest.
       Inr (new_entries @ rest)))"

fun build_grid ::
  "(real list \<times> real) list \<Rightarrow> grid_entry list option \<Rightarrow> error + grid_entry list option" where
  "build_grid [] v = Inr v"
| "build_grid ((inner_dim, spacing) # rest) v =
     (case v of
        None \<Rightarrow> bind_result (first_dimension inner_dim spacing) (\<lambda>v1. build_grid rest (Some v1))
      | Some entries \<Rightarrow>
          bind_result (successive_dimension entries inner_dim spacing) (\<lambda>v1. build_grid rest (Some v1)))"

text \<open>
  Validator of \<open>control_point_variables\<close> (whole value, \<open>always=True\<close>). The second argument
  is the validated \<open>space_dimensions\<close>. The \<open>save_location\<close> handed to every
  VariableLocation belongs to the base model and plays no part here.
\<close>

definition make_default_control_point_grid ::
  "grid_entry list option \<Rightarrow> SplineSpaceDimension list option \<Rightarrow> error + grid_entry list option" where
  "make_default_control_point_grid v sd =
     (case v of
        Some g \<Rightarrow> Inr (Some g)
      | None \<Rightarrow>
          (case sd of
             None \<Rightarrow> Inl ParserException
           | Some spline_dimensions \<Rightarrow>
               bind_result (value_ranges (rev (map number_of_points spline_dimensions)))
                 (\<lambda>ranges. build_grid ranges None)))"

text \<open>
  Validator of every supplied row (\<open>each_item=True\<close>): floats become VariableLocations
  without variability, and every position must lie in the unit interval.
\<close>

fun convert_all_control_point_locations_to_variable_locations ::
  "cp_item list \<Rightarrow> error + VariableLocation list" where
  "convert_all_control_point_locations_to_variable_locations [] = Inr []"
| "convert_all_control_point_locations_to_variable_locations (element # es) =
     bind_result
       (case element of
          RawFloat x \<Rightarrow> VariableLocation_init x None None n_steps_default None
        | VarLoc var \<Rightarrow> Inr var)
       (\<lambda>var.
          if \<not> (0 \<le> current_position var \<and> current_position var \<le> 1) then Inl ParserException
          else bind_result (convert_all_control_point_locations_to_variable_locations es)
                 (\<lambda>rest. Inr (var # rest)))"

text \<open>
  A coordinate as the configuration supplies it: a number, or the arguments of a
  VariableLocation (\<open>current_position\<close>, \<open>min_value\<close>, \<open>max_value\<close>, \<open>n_steps\<close>, \<open>step\<close>).
  The field type \<open>Union[VariableLocation, confloat(ge=0, le=1)]\<close> turns it into a
  \<open>cp_item\<close> or rejects it.
\<close>

datatype cp_input = InFloat real | InVarLoc real "real option" "real option" "int option" "real option"

fun validate_cp_input :: "cp_input \<Rightarrow> error + cp_item" where
  "validate_cp_input (InFloat x) = (if 0 \<le> x \<and> x \<le> 1 then Inr (RawFloat x) else Inl ValidationError)"
| "validate_cp_input (InVarLoc cur mn mx ns stp) =
     bind_result (VariableLocation_init cur mn mx ns stp) (\<lambda>var. Inr (VarLoc var))"

fun map_result :: "('a \<Rightarrow> error + 'b) \<Rightarrow> 'a list \<Rightarrow> error + 'b list" where
  "map_result f [] = Inr []"
| "map_result f (x # xs) =
     bind_result (f x) (\<lambda>y. bind_result (map_result f xs) (\<lambda>ys. Inr (y # ys)))"

text \<open>
  The field \<open>control_point_variables\<close> as the model class declares it: a supplied list has
  every row checked against the field type and handed to the row validator; an absent
  value goes to the default grid.
\<close>

definition control_point_variables_field ::
  "cp_input list list option \<Rightarrow> SplineSpaceDimension list option \<Rightarrow> error + grid_entry list option" where
  "control_point_variables_field supplied sd =
     (case supplied of
        None \<Rightarrow> make_default_control_point_grid None sd
      | Some rows \<Rightarrow>
          bind_result
            (map_result (\<lambda>row.
               bind_result (map_result validate_cp_input row) (\<lambda>items.
               bind_result (convert_all_control_point_locations_to_variable_locations items) (\<lambda>vars.
                 Inr (Tuple (map VarLoc vars))))) rows)
            (\<lambda>g. make_default_control_point_grid (Some g) sd))"

section \<open>NURBSDefinition: weights\<close>





section \<open>Spline definitions at run time\<close>

text \<open>
  VariableLocations are mutable objects shared between a spline definition and the
  environment's action list. They live in a store; the grid, the weights and the action
  list hold references.
\<close>

type_synonym ref = nat

type_synonym store = "ref \<Rightarrow> VariableLocation"

record SplineDefinition =
  space_dimensions :: "SplineSpaceDimension list"
  spline_dimension :: int
  control_point_variables :: "ref list list"

record NURBSDefinition = SplineDefinition +
  weights :: "ref list"

definition get_number_of_points :: "'a SplineDefinition_scheme \<Rightarrow> int" where
  "get_number_of_points self = prod_list (map number_of_points (space_dimensions self))"


text \<open>
  The comprehension \<open>[variable for variable in ... if variable.is_action()]\<close>: every
  variable is asked once, which fills its cache.
\<close>

fun collect_actions :: "ref list \<Rightarrow> store \<Rightarrow> ref list \<times> store" where
  "collect_actions [] h = ([], h)"
| "collect_actions (r # rs) h =
     (let (b, var) = is_action (h r);
          (acts, h1) = collect_actions rs (h(r := var))
      in (if b then r # acts else acts, h1))"

definition get_actions :: "'a SplineDefinition_scheme \<Rightarrow> store \<Rightarrow> ref list \<times> store" where
  "get_actions self h = collect_actions (concat (control_point_variables self)) h"

definition NURBS_get_actions :: "NURBSDefinition \<Rightarrow> store \<Rightarrow> ref list \<times> store" where
  "NURBS_get_actions self h =
     (let (actions, h1) = get_actions self h;
          (weight_actions, h2) = collect_actions (weights self) h1
      in (actions @ weight_actions, h2))"

fun reset_variables :: "ref list \<Rightarrow> store \<Rightarrow> store" where
  "reset_variables [] h = h"
| "reset_variables (r # rs) h = reset_variables rs (h(r := reset (h r)))"

fun reset_control_points :: "ref list list \<Rightarrow> store \<Rightarrow> store" where
  "reset_control_points [] h = h"
| "reset_control_points (control_point # cps) h =
     reset_control_points cps (reset_variables control_point h)"

definition SplineDefinition_reset :: "'a SplineDefinition_scheme \<Rightarrow> store \<Rightarrow> store" where
  "SplineDefinition_reset self h = reset_control_points (control_point_variables self) h"

definition NURBSDefinition_reset :: "NURBSDefinition \<Rightarrow> store \<Rightarrow> store" where
  "NURBSDefinition_reset self h = reset_variables (weights self) (SplineDefinition_reset self h)"



section \<open>CubeDefinition and the Spline wrapper\<close>

record CubeDefinition =
  control_points :: "ref list list"

definition Cube_get_actions :: "CubeDefinition \<Rightarrow> store \<Rightarrow> ref list \<times> store" where
  "Cube_get_actions self h = collect_actions (concat (control_points self)) h"

definition Cube_reset :: "CubeDefinition \<Rightarrow> store \<Rightarrow> store" where
  "Cube_reset self h = reset_control_points (control_points self) h"

text \<open>
  \<open>SplineTypes = Union[NURBSDefinition, BSplineDefinition, CubeDefinition]\<close>; a
  BSplineDefinition adds no field and overrides neither \<open>get_actions\<close> nor \<open>reset\<close>.
\<close>

datatype SplineTypes = NURBS NURBSDefinition | BSpline SplineDefinition | Cube CubeDefinition

record Spline =
  spline_definition :: SplineTypes

definition Spline_get_actions :: "Spline \<Rightarrow> store \<Rightarrow> ref list \<times> store" where
  "Spline_get_actions self h =
     (case spline_definition self of
        NURBS d \<Rightarrow> NURBS_get_actions d h
      | BSpline d \<Rightarrow> get_actions d h
      | Cube d \<Rightarrow> Cube_get_actions d h)"

definition Spline_reset :: "Spline \<Rightarrow> store \<Rightarrow> store" where
  "Spline_reset self h =
     (case spline_definition self of
        NURBS d \<Rightarrow> NURBSDefinition_reset d h
      | BSpline d \<Rightarrow> SplineDefinition_reset d h
      | Cube d \<Rightarrow> Cube_reset d h)"

section \<open>Environment: the action interface\<close>

record Environment =
  spline :: Spline
  discrete_actions :: bool
  priv_actions :: "ref list"

text \<open>The constructor stores the list \<open>self.spline.get_actions()\<close> returned.\<close>

definition Environment_init :: "bool \<Rightarrow> Spline \<Rightarrow> store \<Rightarrow> Environment \<times> store" where
  "Environment_init discrete spl h =
     (let (actions, h1) = Spline_get_actions spl h
      in (\<lparr>spline = spl, discrete_actions = discrete, priv_actions = actions\<rparr>, h1))"

datatype gym_space = Discrete_space int | Box_space real real nat

definition set_up_actions :: "Environment \<Rightarrow> gym_space" where
  "set_up_actions self =
     (if discrete_actions self then Discrete_space (int (length (priv_actions self)) * 2)
      else Box_space (-1) 1 (length (priv_actions self)))"

datatype action = DiscreteAction int | ContinuousAction "real list"

text \<open>Python's \<open>int(x)\<close> on a float truncates towards zero.\<close>

definition int_of_float :: "real \<Rightarrow> int" where
  "int_of_float x = (if 0 \<le> x then \<lfloor>x\<rfloor> else \<lceil>x\<rceil>)"

text \<open>List subscription: a negative index counts from the end, out of range raises.\<close>

definition subscript :: "'a list \<Rightarrow> int \<Rightarrow> error + 'a" where
  "subscript xs i =
     (let n = int (length xs); j = (if i < 0 then i + n else i)
      in if 0 \<le> j \<and> j < n then Inr (xs ! nat j) else Inl IndexError)"

text \<open>The loop over \<open>zip(action, self._actions)\<close>.\<close>

fun apply_continuous_values :: "real list \<Rightarrow> ref list \<Rightarrow> store \<Rightarrow> store" where
  "apply_continuous_values (new_value # vs) (action_obj # objs) h =
     apply_continuous_values vs objs
       (h(action_obj := snd (apply_continuos_action new_value (h action_obj))))"
| "apply_continuous_values _ _ h = h"

text \<open>
  \<open>apply_action\<close>: an integer in discrete mode, a list of floats otherwise; the other
  combination fails on \<open>%\<close> or in \<open>zip\<close>.
\<close>

definition apply_action :: "action \<Rightarrow> Environment \<Rightarrow> store \<Rightarrow> error + store" where
  "apply_action act self h =
     (if discrete_actions self then
        (case act of
           DiscreteAction a \<Rightarrow>
             (let increasing = (a mod 2 = 0);
                  action_index = int_of_float (real_of_int a / 2)
              in bind_result (subscript (priv_actions self) action_index) (\<lambda>r.
                   Inr (h(r := snd (apply_discrete_action increasing (h r))))))
         | ContinuousAction _ \<Rightarrow> Inl TypeError)
      else
        (case act of
           ContinuousAction vs \<Rightarrow> Inr (apply_continuous_values vs (priv_actions self) h)
         | DiscreteAction _ \<Rightarrow> Inl TypeError))"

section \<open>The order the specification describes\<close>

text \<open>
  The specification says that the last declared axis varies fastest in the flattened index.
  Under that reading, with \<open>ms\<close> the point counts in declared order, the control point
  with flattened index \<open>k\<close> has this index along axis \<open>j\<close>. The definition follows the
  specification's words, for comparison with what the code builds.
\<close>

definition last_axis_fastest :: "nat list \<Rightarrow> nat \<Rightarrow> nat \<Rightarrow> nat" where
  "last_axis_fastest ms k j = (k div prod_list (drop (Suc j) ms)) mod (ms ! j)"

section \<open>Properties of VariableLocation\<close>


lemma apply_call_bounds_fields [simp]:
  "min_value (apply_call c v) = min_value v" "max_value (apply_call c v) = max_value v"
  "step (apply_call c v) = step v"
  by (cases c; simp add: apply_discrete_action_def apply_continuos_action_def Let_def
      snapshot_original_def)+


lemma apply_calls_bounds_fields [simp]:
  "min_value (apply_calls cs v) = min_value v" "max_value (apply_calls cs v) = max_value v"
  by (induction cs arbitrary: v) simp_all



section \<open>Properties of reset\<close>













section \<open>Properties of the action interface\<close>

lemma is_action_again: "fst (is_action (snd (is_action v))) = fst (is_action v)"
  by (simp add: is_action_def Let_def split: option.splits)

lemma collect_actions_filter:
  "(\<And>r. r \<in> set rs \<Longrightarrow> fst (is_action (h r)) = fst (is_action (h0 r))) \<Longrightarrow>
   fst (collect_actions rs h) = filter (\<lambda>r. fst (is_action (h0 r))) rs"
proof (induction rs arbitrary: h)
  case Nil
  then show ?case by simp
next
  case (Cons r rs)
  have "fst (collect_actions rs (h(r := snd (is_action (h r))))) = filter (\<lambda>r. fst (is_action (h0 r))) rs"
    by (rule Cons.IH) (use Cons.prems in \<open>auto simp: is_action_again\<close>)
  then show ?case using Cons.prems [of r]
    by (simp add: split_beta Let_def)
qed

lemma collect_actions_store:
  "fst (is_action (snd (collect_actions rs h) r)) = fst (is_action (h r))"
  by (induction rs arbitrary: h) (auto simp: split_beta Let_def is_action_again)

lemma NURBS_get_actions_filter:
  "fst (NURBS_get_actions s h0) =
     filter (\<lambda>r. fst (is_action (h0 r))) (concat (control_point_variables s) @ weights s)"
proof -
  have a: "fst (get_actions s h0) = filter (\<lambda>r. fst (is_action (h0 r))) (concat (control_point_variables s))"
    unfolding get_actions_def by (rule collect_actions_filter) simp
  have b: "fst (collect_actions (weights s) (snd (get_actions s h0))) = filter (\<lambda>r. fst (is_action (h0 r))) (weights s)"
    unfolding get_actions_def by (rule collect_actions_filter) (simp add: collect_actions_store)
  show ?thesis using a b by (simp add: NURBS_get_actions_def split_beta Let_def)
qed

lemma get_actions_filter:
  "fst (get_actions s h0) = filter (\<lambda>r. fst (is_action (h0 r))) (concat (control_point_variables s))"
  unfolding get_actions_def by (rule collect_actions_filter) simp

lemma Cube_get_actions_filter:
  "fst (Cube_get_actions s h0) = filter (\<lambda>r. fst (is_action (h0 r))) (concat (control_points s))"
  unfolding Cube_get_actions_def by (rule collect_actions_filter) simp

lemma int_of_float_half: "0 \<le> i \<Longrightarrow> int_of_float (real_of_int i / 2) = i div 2"
  by (simp add: int_of_float_def floor_divide_of_int_eq [of i 2, simplified])

lemma subscript_in_range: "0 \<le> i \<Longrightarrow> i < int (length xs) \<Longrightarrow> subscript xs i = Inr (xs ! nat i)"
  by (simp add: subscript_def Let_def)

lemma apply_continuous_values_other:
  "r \<notin> set objs \<Longrightarrow> apply_continuous_values vs objs h r = h r"
  by (induction vs objs h rule: apply_continuous_values.induct) auto

lemma apply_continuous_values_nth:
  "length vs = length objs \<Longrightarrow> distinct objs \<Longrightarrow> j < length objs \<Longrightarrow>
   apply_continuous_values vs objs h (objs ! j) = snd (apply_continuos_action (vs ! j) (h (objs ! j)))"
proof (induction objs arbitrary: vs h j)
  case Nil
  then show ?case by simp
next
  case (Cons action_obj objs)
  obtain new_value vs' where vs: "vs = new_value # vs'"
    using Cons.prems(1) by (cases vs) auto
  let ?h1 = "h(action_obj := snd (apply_continuos_action new_value (h action_obj)))"
  show ?case
  proof (cases j)
    case 0
    then show ?thesis using Cons.prems vs by (simp add: apply_continuous_values_other)
  next
    case (Suc j')
    have ne: "objs ! j' \<noteq> action_obj" using Suc Cons.prems by auto
    have "apply_continuous_values vs' objs ?h1 (objs ! j') =
            snd (apply_continuos_action (vs' ! j') (?h1 (objs ! j')))"
      by (rule Cons.IH) (use Suc Cons.prems vs in auto)
    then show ?thesis using Suc vs ne by simp
  qed
qed

section \<open>Properties of the axis and grid validators\<close>

lemma value_ranges_error:
  "value_ranges ns = Inl err \<Longrightarrow> err = ZeroDivisionError"
  by (induction ns arbitrary: err)
     (auto simp: bind_result_def dim_spacing_of_def split: sum.splits if_splits)

lemma value_ranges_one:
  "1 \<in> set ns \<Longrightarrow> \<exists>err. value_ranges ns = Inl err"
  by (induction ns) (auto simp: bind_result_def dim_spacing_of_def split: sum.splits)

lemma open_knot_vector_value:
  assumes "1 \<le> p" "1 \<le> d" "d + 1 \<le> p"
  shows "validate_knot_vector None (Some nm) (Some p) (Some d) =
           Inr ([LogDebug],
                Some (replicate (nat d) 0
                      @ map (\<lambda>i. real i / real_of_int (p - d)) [0..<nat (p - d + 1)]
                      @ replicate (nat d) 1))"
proof -
  have "p + d + 1 - (2 * (d + 1)) + 2 \<noteq> 1" using assms by simp
  moreover have "p + d + 1 - (2 * (d + 1)) + 2 - 1 = p - d" "p + d + 1 - (2 * (d + 1)) + 2 = p - d + 1"
    by simp_all
  moreover have "nat (1 + (p - d)) = nat (p - d + 1)" by simp
  ultimately show ?thesis using assms
    by (simp add: validate_knot_vector_def Let_def linspace_def zeros_def ones_def)
qed

lemma grid_variable_ok:
  assumes "0 \<le> s"
  shows "\<exists>v. grid_variable e s = Inr v \<and> current_position v = e"
  using assms
  by (simp add: grid_variable_def VariableLocation_init_def bind_result_def
      set_variable_to_current_position_if_not_given_def max_value_is_greater_than_min_value_def
      validate_n_steps_def n_steps_default_def)

lemma grid_variable_projr:
  assumes "0 \<le> s"
  shows "grid_variable e s = Inr (projr (grid_variable e s))"
    and "current_position (projr (grid_variable e s)) = e"
proof -
  obtain v where v: "grid_variable e s = Inr v" "current_position v = e"
    using grid_variable_ok [OF assms] by blast
  show "grid_variable e s = Inr (projr (grid_variable e s))" by (simp add: v(1))
  show "current_position (projr (grid_variable e s)) = e" by (simp add: v)
qed

lemma first_dimension_value:
  assumes "0 \<le> s"
  shows "first_dimension es s = Inr (map (\<lambda>e. Single (projr (grid_variable e s))) es)"
proof (induction es)
  case Nil
  then show ?case by simp
next
  case (Cons e es)
  obtain v where v: "grid_variable e s = Inr v"
    using grid_variable_ok [OF assms] by blast
  show ?case by (simp add: v Cons.IH bind_result_def)
qed

lemma prepend_dimension_value:
  assumes "0 \<le> s"
  shows "prepend_dimension cur es s =
     Inr (map (\<lambda>e. Tuple (VarLoc (projr (grid_variable e s)) # as_list cur)) es)"
proof (induction es)
  case Nil
  then show ?case by simp
next
  case (Cons e es)
  obtain v where v: "grid_variable e s = Inr v"
    using grid_variable_ok [OF assms] by blast
  show ?case by (simp add: v Cons.IH bind_result_def)
qed

lemma successive_dimension_value:
  "0 \<le> s \<Longrightarrow> successive_dimension entries es s =
     Inr (concat (map (\<lambda>cur. map (\<lambda>e. Tuple (VarLoc (projr (grid_variable e s)) # as_list cur)) es)
            entries))"
  by (induction entries) (simp_all add: bind_result_def prepend_dimension_value)

lemma build_grid_append:
  "build_grid (xs @ ys) v = bind_result (build_grid xs v) (build_grid ys)"
proof (induction xs arbitrary: v)
  case Nil
  then show ?case by (simp add: bind_result_def)
next
  case (Cons x xs)
  obtain d s where x: "x = (d, s)" by (cases x)
  show ?case using Cons.IH
    by (simp add: x bind_result_def split: option.splits sum.splits)
qed

lemma value_ranges_value:
  "list_all (\<lambda>n. 2 \<le> n) ns \<Longrightarrow>
   value_ranges ns = Inr (map (\<lambda>n. (linspace 0 1 n, 1 / real_of_int ((n - 1) * 2))) ns)"
  by (induction ns) (simp_all add: bind_result_def dim_spacing_of_def)

lemma value_ranges_append:
  "list_all (\<lambda>n. 2 \<le> n) ns \<Longrightarrow>
   value_ranges (rev ns) = Inr (map (\<lambda>n. (linspace 0 1 n, 1 / real_of_int ((n - 1) * 2))) (rev ns))"
  by (rule value_ranges_value) simp

lemma linspace_unit:
  "2 \<le> n \<Longrightarrow> linspace 0 1 n = map (\<lambda>i. real i / real_of_int (n - 1)) [0..<nat n]"
  by (simp add: linspace_def)

lemma concat_map_length:
  "length (concat (map (\<lambda>x. map (f x) ys) xs)) = length xs * length ys"
  by (induction xs) simp_all

lemma concat_map_nth:
  assumes "k < length xs * length ys"
  shows "concat (map (\<lambda>x. map (f x) ys) xs) ! k = f (xs ! (k div length ys)) (ys ! (k mod length ys))"
proof -
  have "concat (map (\<lambda>x. map (f x) ys) xs) = map (\<lambda>(x, y). f x y) (List.product xs ys)"
    by (induction xs) simp_all
  then show ?thesis using assms by (simp add: product_nth)
qed

text \<open>
  Reversing the axes and walking through them is a recursion over the declared order:
  the first declared axis is processed last.
\<close>

lemma default_grid_step:
  assumes "list_all (\<lambda>n. 2 \<le> n) (n # ns)"
  shows "bind_result (value_ranges (rev (n # ns))) (\<lambda>ranges. build_grid ranges None) =
         bind_result (bind_result (value_ranges (rev ns)) (\<lambda>ranges. build_grid ranges None))
           (build_grid [(linspace 0 1 n, 1 / real_of_int ((n - 1) * 2))])"
proof -
  have a: "list_all (\<lambda>n. 2 \<le> n) ns" using assms by simp
  show ?thesis
    using value_ranges_append [OF assms] value_ranges_append [OF a]
    by (simp add: bind_result_def build_grid_append)
qed

lemma default_grid_entries:
  assumes "list_all (\<lambda>n. 2 \<le> n) ns" and "ns \<noteq> []"
  shows "\<exists>g. bind_result (value_ranges (rev ns)) (\<lambda>ranges. build_grid ranges None) = Inr (Some g)
           \<and> length g = prod_list (map nat ns)
           \<and> (\<forall>k < length g. \<exists>vars. as_list (g ! k) = map VarLoc vars
                 \<and> (2 \<le> length ns \<longrightarrow> g ! k = Tuple (map VarLoc vars))
                 \<and> length vars = length ns
                 \<and> (\<forall>j < length ns.
                       current_position (vars ! j) =
                         real ((k div prod_list (map nat (take j ns))) mod nat (ns ! j))
                           / real_of_int (ns ! j - 1)))"
  using assms
proof (induction ns)
  case Nil
  then show ?case by simp
next
  case (Cons n ns)
  let ?s = "1 / real_of_int ((n - 1) * 2)"
  let ?G = "\<lambda>e. projr (grid_variable e ?s)"
  have n: "2 \<le> n" and all: "list_all (\<lambda>n. 2 \<le> n) ns" using Cons.prems by simp_all
  have s: "0 \<le> ?s" using n by simp
  have lin: "linspace 0 1 n = map (\<lambda>i. real i / real_of_int (n - 1)) [0..<nat n]"
    using n by (rule linspace_unit)
  have len_lin: "length (linspace 0 1 n) = nat n" by (simp add: lin)
  have lin_nth: "linspace 0 1 n ! i = real i / real_of_int (n - 1)" if "i < nat n" for i
    using that by (simp add: lin)
  show ?case
  proof (cases "ns = []")
    case True
    have "bind_result (value_ranges (rev (n # ns))) (\<lambda>ranges. build_grid ranges None) =
            Inr (Some (map (\<lambda>e. Single (?G e)) (linspace 0 1 n)))"
      using True n s by (simp add: bind_result_def dim_spacing_of_def first_dimension_value)
    moreover have "\<exists>vars. as_list (map (\<lambda>e. Single (?G e)) (linspace 0 1 n) ! k) = map VarLoc vars
                 \<and> (2 \<le> length (n # ns) \<longrightarrow> map (\<lambda>e. Single (?G e)) (linspace 0 1 n) ! k = Tuple (map VarLoc vars))
                 \<and> length vars = length (n # ns)
                 \<and> (\<forall>j < length (n # ns).
                       current_position (vars ! j) =
                         real ((k div prod_list (map nat (take j (n # ns)))) mod nat ((n # ns) ! j))
                           / real_of_int ((n # ns) ! j - 1))"
      if "k < nat n" for k
    proof -
      have "as_list (map (\<lambda>e. Single (?G e)) (linspace 0 1 n) ! k) = map VarLoc [?G (linspace 0 1 n ! k)]"
        using that by (simp add: len_lin)
      moreover have "current_position (?G (linspace 0 1 n ! k)) = real (k mod nat n) / real_of_int (n - 1)"
        using that s by (simp add: grid_variable_projr(2) lin_nth)
      ultimately show ?thesis using True by (intro exI [of _ "[?G (linspace 0 1 n ! k)]"]) simp
    qed
    ultimately show ?thesis using True by (simp add: len_lin)
  next
    case False
    obtain g where g: "bind_result (value_ranges (rev ns)) (\<lambda>ranges. build_grid ranges None) = Inr (Some g)"
      and len_g: "length g = prod_list (map nat ns)"
      and ent: "\<And>k. k < length g \<Longrightarrow> \<exists>vars. as_list (g ! k) = map VarLoc vars
                 \<and> length vars = length ns
                 \<and> (\<forall>j < length ns.
                       current_position (vars ! j) =
                         real ((k div prod_list (map nat (take j ns))) mod nat (ns ! j))
                           / real_of_int (ns ! j - 1))"
      using Cons.IH [OF all False] by blast
    let ?g' = "concat (map (\<lambda>cur. map (\<lambda>e. Tuple (VarLoc (?G e) # as_list cur)) (linspace 0 1 n)) g)"
    have res: "bind_result (value_ranges (rev (n # ns))) (\<lambda>ranges. build_grid ranges None) = Inr (Some ?g')"
      unfolding default_grid_step [OF Cons.prems(1)] g
      using s by (simp add: bind_result_def successive_dimension_value)
    have len': "length ?g' = prod_list (map nat (n # ns))"
      by (simp add: concat_map_length len_g len_lin)
    have ent': "\<exists>vars. as_list (?g' ! k) = map VarLoc vars
                 \<and> (2 \<le> length (n # ns) \<longrightarrow> ?g' ! k = Tuple (map VarLoc vars))
                 \<and> length vars = length (n # ns)
                 \<and> (\<forall>j < length (n # ns).
                       current_position (vars ! j) =
                         real ((k div prod_list (map nat (take j (n # ns)))) mod nat ((n # ns) ! j))
                           / real_of_int ((n # ns) ! j - 1))"
      if k: "k < length ?g'" for k
    proof -
      have k': "k < length g * length (linspace 0 1 n)" using k by (simp add: concat_map_length)
      have npos: "0 < nat n" using n by simp
      have kd: "k div nat n < length g"
        using k' npos by (simp add: len_lin less_mult_imp_div_less)
      have km: "k mod nat n < nat n" using npos by simp
      obtain vars where vars: "as_list (g ! (k div nat n)) = map VarLoc vars"
        and lv: "length vars = length ns"
        and pv: "\<And>j. j < length ns \<Longrightarrow> current_position (vars ! j) =
                         real (((k div nat n) div prod_list (map nat (take j ns))) mod nat (ns ! j))
                           / real_of_int (ns ! j - 1)"
        using ent [OF kd] by blast
      let ?v = "?G (linspace 0 1 n ! (k mod nat n))"
      have nth: "?g' ! k = Tuple (VarLoc ?v # as_list (g ! (k div nat n)))"
        using concat_map_nth [OF k', of "\<lambda>cur e. Tuple (VarLoc (?G e) # as_list cur)"]
        by (simp add: len_lin)
      have eq: "?g' ! k = Tuple (map VarLoc (?v # vars))" using nth vars by simp
      have p0: "current_position ?v = real (k mod nat n) / real_of_int (n - 1)"
        using s km by (simp add: grid_variable_projr(2) lin_nth)
      have pj: "current_position ((?v # vars) ! j) =
                  real ((k div prod_list (map nat (take j (n # ns)))) mod nat ((n # ns) ! j))
                    / real_of_int ((n # ns) ! j - 1)"
        if "j < length (n # ns)" for j
      proof (cases j)
        case 0
        then show ?thesis using p0 by simp
      next
        case (Suc j')
        then have "j' < length ns" using that by simp
        then show ?thesis using Suc pv [of j'] by (simp add: div_mult2_eq)
      qed
      show ?thesis
        using eq lv pj by (intro exI [of _ "?v # vars"]) simp
    qed
    show ?thesis using res len' ent' by blast
  qed
qed

section \<open>Properties of supplied control points\<close>






section \<open>Claims\<close>




text \<open>
  C7 (amended). For a VariableLocation constructed with position 0.5, bounds 0 and 1,
  \<open>n_steps = 10\<close> and no explicit step, the derived step is the range divided by the
  number of steps, 0.1; \<open>apply_discrete_action(True)\<close> returns 0.6;
  \<open>apply_discrete_action(False)\<close> on the original returns 0.4; ten consecutive increasing
  actions leave the position clamped at 1.
\<close>

theorem C7_discrete_step_example:
  "VariableLocation_init (1/2) (Some 0) (Some 1) (Some 10) None =
     Inr \<lparr>current_position = 1/2, min_value = 0, max_value = 1, n_steps = Some 10,
          step = 1/10, priv_is_action = None, priv_original_position = None\<rparr>
   \<and> fst (apply_discrete_action True \<lparr>current_position = 1/2, min_value = 0, max_value = 1,
          n_steps = Some 10, step = 1/10, priv_is_action = None, priv_original_position = None\<rparr>)
        = 6/10
   \<and> fst (apply_discrete_action False \<lparr>current_position = 1/2, min_value = 0, max_value = 1,
          n_steps = Some 10, step = 1/10, priv_is_action = None, priv_original_position = None\<rparr>)
        = 4/10
   \<and> current_position (apply_calls (replicate 10 (Discrete True))
          \<lparr>current_position = 1/2, min_value = 0, max_value = 1,
          n_steps = Some 10, step = 1/10, priv_is_action = None, priv_original_position = None\<rparr>)
        = 1"
  by (simp add: VariableLocation_init_def bind_result_def
      set_variable_to_current_position_if_not_given_def max_value_is_greater_than_min_value_def
      validate_n_steps_def define_step_def apply_discrete_action_def snapshot_original_def clip_def
      eval_nat_numeral)

text \<open>C7 as stated fails: the step is not 0.05 and the returned positions are not 0.55 and 0.45.\<close>

theorem C7_counterexample:
  "VariableLocation_init (1/2) (Some 0) (Some 1) (Some 10) None =
     Inr \<lparr>current_position = 1/2, min_value = 0, max_value = 1, n_steps = Some 10,
          step = 1/10, priv_is_action = None, priv_original_position = None\<rparr>
   \<and> step \<lparr>current_position = 1/2, min_value = 0, max_value = 1, n_steps = Some 10,
          step = 1/10, priv_is_action = None, priv_original_position = None\<rparr> \<noteq> 5/100
   \<and> fst (apply_discrete_action True \<lparr>current_position = 1/2, min_value = 0, max_value = 1,
          n_steps = Some 10, step = 1/10, priv_is_action = None, priv_original_position = None\<rparr>)
        \<noteq> 55/100
   \<and> fst (apply_discrete_action False \<lparr>current_position = 1/2, min_value = 0, max_value = 1,
          n_steps = Some 10, step = 1/10, priv_is_action = None, priv_original_position = None\<rparr>)
        \<noteq> 45/100"
  by (simp add: VariableLocation_init_def bind_result_def
      set_variable_to_current_position_if_not_given_def max_value_is_greater_than_min_value_def
      validate_n_steps_def define_step_def apply_discrete_action_def snapshot_original_def clip_def)



text \<open>
  C8. The environment's action list is what \<open>get_actions()\<close> returned: the action-eligible
  variables in grid order (for NURBS followed by the action-eligible weights). With \<open>k\<close> of
  them, all distinct objects, the discrete action space has \<open>2k\<close> values and every index
  \<open>i\<close> in \<open>[0, 2k)\<close> calls \<open>apply_discrete_action\<close> on the variable at position \<open>i div 2\<close>,
  increasing iff \<open>i mod 2 = 0\<close>; in continuous mode the space has \<open>k\<close> dimensions and a
  vector of length \<open>k\<close> is applied positionally through \<open>apply_continuos_action\<close>, leaving
  every other object alone.
\<close>

theorem C8_action_index:
  assumes init: "Environment_init discrete spl h0 = (e, h)"
      and objects: "distinct (priv_actions e)"
      and k: "k = length (priv_actions e)"
  shows "priv_actions e = fst (Spline_get_actions spl h0)
       \<and> (\<forall>d. spline_definition spl = NURBS d \<longrightarrow>
            priv_actions e =
              filter (\<lambda>r. fst (is_action (h0 r))) (concat (control_point_variables d) @ weights d))
       \<and> (\<forall>d. spline_definition spl = BSpline d \<longrightarrow>
            priv_actions e =
              filter (\<lambda>r. fst (is_action (h0 r))) (concat (control_point_variables d)))
       \<and> (\<forall>d. spline_definition spl = Cube d \<longrightarrow>
            priv_actions e = filter (\<lambda>r. fst (is_action (h0 r))) (concat (control_points d)))
       \<and> (discrete \<longrightarrow>
            set_up_actions e = Discrete_space (2 * int k)
          \<and> (\<forall>i. 0 \<le> i \<and> i < 2 * int k \<longrightarrow>
                apply_action (DiscreteAction i) e h =
                  Inr (h(priv_actions e ! nat (i div 2) :=
                         snd (apply_discrete_action (i mod 2 = 0) (h (priv_actions e ! nat (i div 2))))))))
       \<and> (\<not> discrete \<longrightarrow>
            set_up_actions e = Box_space (-1) 1 k
          \<and> (\<forall>vs. length vs = k \<longrightarrow>
                (\<exists>h'. apply_action (ContinuousAction vs) e h = Inr h'
                   \<and> (\<forall>j<k. h' (priv_actions e ! j) =
                               snd (apply_continuos_action (vs ! j) (h (priv_actions e ! j))))
                   \<and> (\<forall>r. r \<notin> set (priv_actions e) \<longrightarrow> h' r = h r))))"
proof -
  have e: "discrete_actions e = discrete" "priv_actions e = fst (Spline_get_actions spl h0)"
    using init by (auto simp: Environment_init_def split_beta Let_def)
  have nurbs: "priv_actions e =
           filter (\<lambda>r. fst (is_action (h0 r))) (concat (control_point_variables d) @ weights d)"
    if "spline_definition spl = NURBS d" for d
    using e(2) that by (simp add: Spline_get_actions_def NURBS_get_actions_filter)
  have bspline: "priv_actions e =
           filter (\<lambda>r. fst (is_action (h0 r))) (concat (control_point_variables d))"
    if "spline_definition spl = BSpline d" for d
    using e(2) that by (simp add: Spline_get_actions_def get_actions_filter)
  have cube: "priv_actions e = filter (\<lambda>r. fst (is_action (h0 r))) (concat (control_points d))"
    if "spline_definition spl = Cube d" for d
    using e(2) that by (simp add: Spline_get_actions_def Cube_get_actions_filter)
  note dist = objects
  have disc: "apply_action (DiscreteAction i) e h =
                  Inr (h(priv_actions e ! nat (i div 2) :=
                         snd (apply_discrete_action (i mod 2 = 0) (h (priv_actions e ! nat (i div 2))))))"
    if "discrete" "0 \<le> i" "i < 2 * int k" for i
  proof -
    have "0 \<le> i div 2" "i div 2 < int (length (priv_actions e))" using that k by auto
    then have "subscript (priv_actions e) (i div 2) = Inr (priv_actions e ! nat (i div 2))"
      by (rule subscript_in_range)
    then show ?thesis using that e(1)
      by (simp add: apply_action_def int_of_float_half bind_result_def Let_def)
  qed
  have cont: "\<exists>h'. apply_action (ContinuousAction vs) e h = Inr h'
                   \<and> (\<forall>j<k. h' (priv_actions e ! j) =
                               snd (apply_continuos_action (vs ! j) (h (priv_actions e ! j))))
                   \<and> (\<forall>r. r \<notin> set (priv_actions e) \<longrightarrow> h' r = h r)"
    if "\<not> discrete" "length vs = k" for vs
    using that e(1) k dist
    by (simp add: apply_action_def apply_continuous_values_nth apply_continuous_values_other)
  have spaces: "discrete \<longrightarrow> set_up_actions e = Discrete_space (2 * int k)"
               "\<not> discrete \<longrightarrow> set_up_actions e = Box_space (-1) 1 k"
    using e(1) k by (simp_all add: set_up_actions_def)
  show ?thesis
    using e(2) nurbs bspline cube disc cont spaces by blast
qed

theorem C8_witness:
  "set_up_actions (fst (Environment_init True
        \<lparr>spline_definition = NURBS \<lparr>space_dimensions = [], spline_dimension = 1,
           control_point_variables = [[2, 3], [4, 5]],
         weights = [6, 7]\<rparr>\<rparr>
        (\<lambda>r. \<lparr>current_position = 1/2, min_value = if r = 4 then 1/2 else 0,
               max_value = if r = 4 then 1/2 else 1,
               n_steps = Some 10, step = 1/10, priv_is_action = None,
               priv_original_position = None\<rparr>))) = Discrete_space 10
   \<and> (\<exists>h'. apply_action (DiscreteAction 5)
          (fst (Environment_init True
            \<lparr>spline_definition = NURBS \<lparr>space_dimensions = [], spline_dimension = 1,
           control_point_variables = [[2, 3], [4, 5]],
             weights = [6, 7]\<rparr>\<rparr>
            (\<lambda>r. \<lparr>current_position = 1/2, min_value = if r = 4 then 1/2 else 0,
               max_value = if r = 4 then 1/2 else 1,
                   n_steps = Some 10, step = 1/10, priv_is_action = None,
                   priv_original_position = None\<rparr>)))
          (snd (Environment_init True
            \<lparr>spline_definition = NURBS \<lparr>space_dimensions = [], spline_dimension = 1,
           control_point_variables = [[2, 3], [4, 5]],
             weights = [6, 7]\<rparr>\<rparr>
            (\<lambda>r. \<lparr>current_position = 1/2, min_value = if r = 4 then 1/2 else 0,
               max_value = if r = 4 then 1/2 else 1,
                   n_steps = Some 10, step = 1/10, priv_is_action = None,
                   priv_original_position = None\<rparr>))) = Inr h'
        \<and> current_position (h' 5) = 4/10 \<and> current_position (h' 4) = 1/2)
   \<and> set_up_actions (fst (Environment_init False
        \<lparr>spline_definition = NURBS \<lparr>space_dimensions = [], spline_dimension = 1,
           control_point_variables = [[2, 3], [4, 5]],
         weights = [6, 7]\<rparr>\<rparr>
        (\<lambda>r. \<lparr>current_position = 1/2, min_value = if r = 4 then 1/2 else 0,
               max_value = if r = 4 then 1/2 else 1,
               n_steps = Some 10, step = 1/10, priv_is_action = None,
               priv_original_position = None\<rparr>))) = Box_space (-1) 1 5
   \<and> (\<exists>h'. apply_action (ContinuousAction [1, -1, 0, 1, -1])
          (fst (Environment_init False
            \<lparr>spline_definition = NURBS \<lparr>space_dimensions = [], spline_dimension = 1,
           control_point_variables = [[2, 3], [4, 5]],
             weights = [6, 7]\<rparr>\<rparr>
            (\<lambda>r. \<lparr>current_position = 1/2, min_value = if r = 4 then 1/2 else 0,
               max_value = if r = 4 then 1/2 else 1,
                   n_steps = Some 10, step = 1/10, priv_is_action = None,
                   priv_original_position = None\<rparr>)))
          (snd (Environment_init False
            \<lparr>spline_definition = NURBS \<lparr>space_dimensions = [], spline_dimension = 1,
           control_point_variables = [[2, 3], [4, 5]],
             weights = [6, 7]\<rparr>\<rparr>
            (\<lambda>r. \<lparr>current_position = 1/2, min_value = if r = 4 then 1/2 else 0,
               max_value = if r = 4 then 1/2 else 1,
                   n_steps = Some 10, step = 1/10, priv_is_action = None,
                   priv_original_position = None\<rparr>))) = Inr h'
        \<and> current_position (h' 5) = 1/2 \<and> current_position (h' 3) = 0)"
proof -
  let ?s = "\<lparr>spline_definition = NURBS \<lparr>space_dimensions = [], spline_dimension = 1,
           control_point_variables = [[2, 3], [4, 5]],
             weights = [6, 7]\<rparr>\<rparr> :: Spline"
  let ?h0 = "\<lambda>r::ref. \<lparr>current_position = 1/2, min_value = if r = 4 then 1/2 else 0,
               max_value = if r = 4 then 1/2 else 1,
               n_steps = Some 10, step = 1/10, priv_is_action = None,
               priv_original_position = None\<rparr> :: VariableLocation"
  let ?d = "Environment_init True ?s ?h0"
  let ?c = "Environment_init False ?s ?h0"
  have acts_d: "priv_actions (fst ?d) = [2, 3, 5, 6, 7]"
    by (simp add: Environment_init_def Spline_get_actions_def NURBS_get_actions_def
        get_actions_def is_action_def split_beta)
  have acts_c: "priv_actions (fst ?c) = [2, 3, 5, 6, 7]"
    by (simp add: Environment_init_def Spline_get_actions_def NURBS_get_actions_def
        get_actions_def is_action_def split_beta)
  have kd: "5 = length (priv_actions (fst ?d))" by (simp only: acts_d) simp
  have kc: "5 = length (priv_actions (fst ?c))" by (simp only: acts_c) simp
  have store_d: "current_position (snd ?d r) = 1/2" "step (snd ?d r) = 1/10"
                "min_value (snd ?d r) = (if r = 4 then 1/2 else 0)"
                "max_value (snd ?d r) = (if r = 4 then 1/2 else 1)"
                "priv_original_position (snd ?d r) = None" for r
    by (simp_all add: Environment_init_def Spline_get_actions_def NURBS_get_actions_def
        get_actions_def is_action_def split_beta)
  have store_c: "current_position (snd ?c r) = 1/2" "step (snd ?c r) = 1/10"
                "min_value (snd ?c r) = (if r = 4 then 1/2 else 0)"
                "max_value (snd ?c r) = (if r = 4 then 1/2 else 1)"
                "priv_original_position (snd ?c r) = None" for r
    by (simp_all add: Environment_init_def Spline_get_actions_def NURBS_get_actions_def
        get_actions_def is_action_def split_beta)
  have init_d: "?d = (fst ?d, snd ?d)" and init_c: "?c = (fst ?c, snd ?c)"
    by (rule prod.collapse [symmetric])+
  have objects_d: "distinct (priv_actions (fst ?d))" by (simp only: acts_d) simp
  have objects_c: "distinct (priv_actions (fst ?c))" by (simp only: acts_c) simp
  note td = C8_action_index [OF init_d objects_d kd]
  note tc = C8_action_index [OF init_c objects_c kc]
  have d1: "set_up_actions (fst ?d) = Discrete_space 10" using td by simp
  have "apply_action (DiscreteAction 5) (fst ?d) (snd ?d) =
          Inr ((snd ?d)(priv_actions (fst ?d) ! nat (5 div 2) :=
                 snd (apply_discrete_action (5 mod 2 = (0::int)) (snd ?d (priv_actions (fst ?d) ! nat (5 div 2))))))"
    using td by simp
  then have d2: "\<exists>h'. apply_action (DiscreteAction 5) (fst ?d) (snd ?d) = Inr h'
        \<and> current_position (h' 5) = 4/10 \<and> current_position (h' 4) = 1/2"
    by (simp add: acts_d store_d apply_discrete_action_def snapshot_original_def clip_def Let_def)
  have c1: "set_up_actions (fst ?c) = Box_space (-1) 1 5" using tc by simp
  have continuous: "\<not> False" and len: "length [1, -1, 0, 1, -1 :: real] = 5" by simp_all
  note cont = tc [THEN conjunct2, THEN conjunct2, THEN conjunct2, THEN conjunct2, THEN conjunct2,
                  THEN mp, OF continuous, THEN conjunct2,
                  THEN spec, of "[1, -1, 0, 1, -1]", THEN mp, OF len]
  obtain h' where h': "apply_action (ContinuousAction [1, -1, 0, 1, -1]) (fst ?c) (snd ?c) = Inr h'"
    and pos: "\<forall>j<5. h' (priv_actions (fst ?c) ! j) =
                 snd (apply_continuos_action ([1, -1, 0, 1, -1] ! j) (snd ?c (priv_actions (fst ?c) ! j)))"
    using cont by (elim exE conjE)
  have "h' (priv_actions (fst ?c) ! 2) =
          snd (apply_continuos_action ([1, -1, 0, 1, -1] ! 2) (snd ?c (priv_actions (fst ?c) ! 2)))"
    using pos by simp
  then have "current_position (h' 5) = 1/2"
    by (simp add: acts_c store_c apply_continuos_action_def snapshot_original_def clip_def Let_def)
  moreover have "h' (priv_actions (fst ?c) ! 1) =
          snd (apply_continuos_action ([1, -1, 0, 1, -1] ! 1) (snd ?c (priv_actions (fst ?c) ! 1)))"
    using pos by simp
  then have "current_position (h' 3) = 0"
    by (simp add: acts_c store_c apply_continuos_action_def snapshot_original_def clip_def Let_def)
  ultimately have c2: "\<exists>h'. apply_action (ContinuousAction [1, -1, 0, 1, -1]) (fst ?c) (snd ?c) = Inr h'
        \<and> current_position (h' 5) = 1/2 \<and> current_position (h' 3) = 0"
    using h' by (intro exI [of _ h'] conjI)
  show ?thesis using d1 d2 c1 c2 by (intro conjI)
qed

text \<open>
  C10. An axis with a single point is accepted by \<open>SplineSpaceDimension\<close>; when any declared
  axis has \<open>number_of_points = 1\<close> and no control points are supplied, the default grid
  divides by zero: the result is a ZeroDivisionError, not a validation error.
\<close>

theorem C10_single_point_axis:
  assumes valid: "list_all (\<lambda>d. 1 \<le> number_of_points d \<and> 1 \<le> degree d) dims"
      and single: "list_ex (\<lambda>d. number_of_points d = 1) dims"
      and deg: "1 \<le> dg"
  shows "(\<exists>logs dim. SplineSpaceDimension_init nm 1 dg kv = Inr (logs, dim) \<and> number_of_points dim = 1)
       \<and> make_default_control_point_grid None (Some dims) = Inl ZeroDivisionError
       \<and> control_point_variables_field None (Some dims) = Inl ZeroDivisionError"
proof -
  have "1 \<in> set (rev (map number_of_points dims))"
    using single by (auto simp: list_ex_iff)
  then obtain err where "value_ranges (rev (map number_of_points dims)) = Inl err"
    using value_ranges_one by blast
  then have "value_ranges (rev (map number_of_points dims)) = Inl ZeroDivisionError"
    using value_ranges_error by blast
  then have g: "make_default_control_point_grid None (Some dims) = Inl ZeroDivisionError"
    by (simp add: make_default_control_point_grid_def bind_result_def)
  have "\<exists>logs dim. SplineSpaceDimension_init nm 1 dg kv = Inr (logs, dim) \<and> number_of_points dim = 1"
    using deg by (auto simp: SplineSpaceDimension_init_def validate_knot_vector_def bind_result_def
        Let_def split: option.splits)
  then show ?thesis using g by (simp add: control_point_variables_field_def)
qed

theorem C10_witness:
  "(\<exists>logs dim. SplineSpaceDimension_init ''v'' 1 1 None = Inr (logs, dim) \<and> number_of_points dim = 1)
   \<and> make_default_control_point_grid None
        (Some [\<lparr>name = ''u'', number_of_points = 3, degree = 1, knot_vector = Some [0, 0, 1/2, 1, 1]\<rparr>,
               \<lparr>name = ''v'', number_of_points = 1, degree = 1, knot_vector = Some [0, 0, 1, 1]\<rparr>])
      = Inl ZeroDivisionError"
proof -
  let ?dims = "[\<lparr>name = ''u'', number_of_points = 3, degree = 1, knot_vector = Some [0, 0, 1/2, 1, 1]\<rparr>,
               \<lparr>name = ''v'', number_of_points = 1, degree = 1, knot_vector = Some [0, 0, 1, 1]\<rparr>]"
  have v: "list_all (\<lambda>d. 1 \<le> number_of_points d \<and> 1 \<le> degree d) ?dims" by simp
  have s: "list_ex (\<lambda>d. number_of_points d = 1) ?dims" by simp
  have d: "(1::int) \<le> 1" by simp
  show ?thesis
    using C10_single_point_axis [OF v s d, of "''v''" None] by (intro conjI) simp_all
qed

text \<open>
  C4. For \<open>p \<ge> 1\<close> points, degree \<open>d \<ge> 1\<close> and no supplied knot vector, with
  \<open>n = p + d + 1\<close>: if \<open>n \<ge> 2 (d + 1)\<close> the stored vector has length \<open>n\<close>, its first
  \<open>d + 1\<close> entries are 0, its last \<open>d + 1\<close> entries are 1, and its \<open>n - 2 (d + 1)\<close> interior
  entries are linearly spaced strictly between 0 and 1; if \<open>n < 2 (d + 1)\<close> the result is
  \<open>d + 1\<close> zeros followed by \<open>d + 1\<close> ones, with a warning and no failure. For \<open>p = 5\<close>,
  \<open>d = 2\<close> the vector is \<open>[0, 0, 0, 1/3, 2/3, 1, 1, 1]\<close>.
\<close>

theorem C4_open_knot_vector:
  assumes p: "1 \<le> p" and d: "1 \<le> d"
  shows "(2 * (d + 1) \<le> p + d + 1 \<longrightarrow>
           (\<exists>kv. SplineSpaceDimension_init nm p d None =
                   Inr ([LogDebug], \<lparr>name = nm, number_of_points = p, degree = d, knot_vector = Some kv\<rparr>)
               \<and> int (length kv) = p + d + 1
               \<and> (\<forall>i < nat (d + 1). kv ! i = 0)
               \<and> (\<forall>i < nat (d + 1). kv ! (nat p + i) = 1)
               \<and> (\<forall>i < nat (p + d + 1 - 2 * (d + 1)).
                     kv ! (nat (d + 1) + i) = real (i + 1) / real_of_int (p - d)
                   \<and> 0 < kv ! (nat (d + 1) + i) \<and> kv ! (nat (d + 1) + i) < 1)))
       \<and> (p + d + 1 < 2 * (d + 1) \<longrightarrow>
           SplineSpaceDimension_init nm p d None =
             Inr ([LogDebug, LogWarning],
                  \<lparr>name = nm, number_of_points = p, degree = d,
                   knot_vector = Some (replicate (nat (d + 1)) 0 @ replicate (nat (d + 1)) 1)\<rparr>))
       \<and> SplineSpaceDimension_init nm 5 2 None =
           Inr ([LogDebug], \<lparr>name = nm, number_of_points = 5, degree = 2,
                             knot_vector = Some [0, 0, 0, 1/3, 2/3, 1, 1, 1]\<rparr>)"
proof -
  have open_case: "\<exists>kv. SplineSpaceDimension_init nm p d None =
                   Inr ([LogDebug], \<lparr>name = nm, number_of_points = p, degree = d, knot_vector = Some kv\<rparr>)
               \<and> int (length kv) = p + d + 1
               \<and> (\<forall>i < nat (d + 1). kv ! i = 0)
               \<and> (\<forall>i < nat (d + 1). kv ! (nat p + i) = 1)
               \<and> (\<forall>i < nat (p + d + 1 - 2 * (d + 1)).
                     kv ! (nat (d + 1) + i) = real (i + 1) / real_of_int (p - d)
                   \<and> 0 < kv ! (nat (d + 1) + i) \<and> kv ! (nat (d + 1) + i) < 1)"
    if enough: "2 * (d + 1) \<le> p + d + 1"
  proof -
    define lin where "lin = map (\<lambda>i. real i / real_of_int (p - d)) [0..<nat (p - d + 1)]"
    define kv where "kv = replicate (nat d) 0 @ lin @ replicate (nat d) (1::real)"
    have dp: "d + 1 \<le> p" using enough by simp
    have len_lin: "length lin = nat (p - d + 1)" by (simp add: lin_def)
    have lin_nth: "lin ! i = real i / real_of_int (p - d)" if "i < nat (p - d + 1)" for i
      using that by (simp add: lin_def)
    have v: "validate_knot_vector None (Some nm) (Some p) (Some d) = Inr ([LogDebug], Some kv)"
      unfolding kv_def lin_def using p d dp by (rule open_knot_vector_value)
    have init: "SplineSpaceDimension_init nm p d None =
                   Inr ([LogDebug], \<lparr>name = nm, number_of_points = p, degree = d, knot_vector = Some kv\<rparr>)"
      using p d v by (simp add: SplineSpaceDimension_init_def bind_result_def)
    have len: "int (length kv) = p + d + 1"
      using p d dp by (simp add: kv_def len_lin)
    have nth_kv: "kv ! (nat d + i) = lin ! i" if "i < nat (p - d + 1)" for i
      using that by (simp add: kv_def nth_append len_lin)
    have start: "kv ! i = 0" if "i < nat (d + 1)" for i
    proof (cases "i < nat d")
      case True
      then show ?thesis by (simp add: kv_def nth_append)
    next
      case False
      then have i: "i = nat d + 0" using that d by linarith
      have "kv ! (nat d + 0) = lin ! 0" by (rule nth_kv) (use dp in simp)
      also have "\<dots> = 0" using dp by (simp add: lin_nth)
      finally show ?thesis using i by simp
    qed
    have stop: "kv ! (nat p + i) = 1" if "i < nat (d + 1)" for i
    proof (cases i)
      case 0
      have "nat p = nat d + nat (p - d)" using d dp by linarith
      then have "kv ! (nat p) = lin ! nat (p - d)" using nth_kv [of "nat (p - d)"] dp by simp
      also have "\<dots> = 1" using dp by (simp add: lin_nth)
      finally show ?thesis using 0 by simp
    next
      case (Suc i')
      have "nat p + i = nat d + length lin + i'" using Suc d dp by (simp add: len_lin)
      moreover have "i' < nat d" using Suc that d by linarith
      ultimately show ?thesis by (simp add: kv_def nth_append)
    qed
    have interior: "kv ! (nat (d + 1) + i) = real (i + 1) / real_of_int (p - d)
                   \<and> 0 < kv ! (nat (d + 1) + i) \<and> kv ! (nat (d + 1) + i) < 1"
      if "i < nat (p + d + 1 - 2 * (d + 1))" for i
    proof -
      have i: "int i + 1 < p - d" using that by (simp add: zless_nat_eq_int_zless)
      have "nat (d + 1) + i = nat d + (i + 1)" using d by linarith
      then have "kv ! (nat (d + 1) + i) = lin ! (i + 1)" using nth_kv [of "i + 1"] i by simp
      also have "\<dots> = real (i + 1) / real_of_int (p - d)" using i by (simp add: lin_nth)
      finally have eq: "kv ! (nat (d + 1) + i) = real (i + 1) / real_of_int (p - d)" .
      have "real (i + 1) < real_of_int (p - d)" using i by linarith
      then show ?thesis using eq dp by simp
    qed
    show ?thesis using init len start stop interior by blast
  qed
  have short_case: "SplineSpaceDimension_init nm p d None =
             Inr ([LogDebug, LogWarning],
                  \<lparr>name = nm, number_of_points = p, degree = d,
                   knot_vector = Some (replicate (nat (d + 1)) 0 @ replicate (nat (d + 1)) 1)\<rparr>)"
    if "p + d + 1 < 2 * (d + 1)"
    using that p d
    by (simp add: SplineSpaceDimension_init_def validate_knot_vector_def bind_result_def Let_def
        zeros_def ones_def)
  have example: "SplineSpaceDimension_init nm 5 2 None =
           Inr ([LogDebug], \<lparr>name = nm, number_of_points = 5, degree = 2,
                             knot_vector = Some [0, 0, 0, 1/3, 2/3, 1, 1, 1]\<rparr>)"
    by (simp add: SplineSpaceDimension_init_def validate_knot_vector_def bind_result_def Let_def
        zeros_def ones_def linspace_def eval_nat_numeral upt_rec)
  show ?thesis using open_case short_case example by blast
qed

theorem C4_witness:
  "(\<exists>kv. SplineSpaceDimension_init ''u'' 4 1 None =
            Inr ([LogDebug], \<lparr>name = ''u'', number_of_points = 4, degree = 1, knot_vector = Some kv\<rparr>)
        \<and> length kv = 6 \<and> kv ! 2 = 1/3 \<and> kv ! 3 = 2/3)
   \<and> SplineSpaceDimension_init ''u'' 1 1 None =
        Inr ([LogDebug, LogWarning],
             \<lparr>name = ''u'', number_of_points = 1, degree = 1, knot_vector = Some [0, 0, 1, 1]\<rparr>)"
proof -
  have one: "(1::int) \<le> 1" and four: "(1::int) \<le> 4" by simp_all
  obtain kv where kv: "SplineSpaceDimension_init ''u'' 4 1 None =
            Inr ([LogDebug], \<lparr>name = ''u'', number_of_points = 4, degree = 1, knot_vector = Some kv\<rparr>)"
    and len: "int (length kv) = 4 + 1 + 1"
    and mid: "\<And>i. i < nat (4 + 1 + 1 - 2 * (1 + 1)) \<Longrightarrow>
                 kv ! (nat (1 + 1) + i) = real (i + 1) / real_of_int (4 - 1)"
    using C4_open_knot_vector [OF four one, of "''u''"] by auto
  have "kv ! 2 = 1/3" using mid [of 0] by simp
  moreover have "kv ! 3 = 2/3" using mid [of 1] by simp
  moreover have "length kv = 6" using len by simp
  ultimately have a: "\<exists>kv. SplineSpaceDimension_init ''u'' 4 1 None =
            Inr ([LogDebug], \<lparr>name = ''u'', number_of_points = 4, degree = 1, knot_vector = Some kv\<rparr>)
        \<and> length kv = 6 \<and> kv ! 2 = 1/3 \<and> kv ! 3 = 2/3"
    using kv by (intro exI [of _ kv] conjI)
  have b: "SplineSpaceDimension_init ''u'' 1 1 None =
        Inr ([LogDebug, LogWarning],
             \<lparr>name = ''u'', number_of_points = 1, degree = 1, knot_vector = Some [0, 0, 1, 1]\<rparr>)"
    using C4_open_knot_vector [OF one one, of "''u''"] by (simp add: eval_nat_numeral)
  show ?thesis using a b by (intro conjI)
qed

text \<open>
  C5 (the code at the failing input). A supplied knot vector of the wrong length is logged
  with a warning, and the validator then falls off its end: the stored \<open>knot_vector\<close> is
  \<open>None\<close>, not the supplied list.
\<close>

theorem C5_wrong_length_knot_vector:
  "SplineSpaceDimension_init ''x'' 3 1 (Some [0, 1]) =
     Inr ([LogDebug, LogWarning],
          \<lparr>name = ''x'', number_of_points = 3, degree = 1, knot_vector = None\<rparr>)"
  by (simp add: SplineSpaceDimension_init_def validate_knot_vector_def bind_result_def)


text \<open>
  C1 (amended). For at least two axes with at least two points each and no supplied
  control points, the default grid has one tuple of VariableLocations per control point,
  every tuple holds one coordinate per axis in declared order, and the flattened list is
  ordered so that the first declared axis varies fastest: the coordinate along axis \<open>j\<close>
  of the control point with flattened index \<open>k\<close> is the linspace value with index
  \<open>(k div (n\<^sub>0 * ... * n\<^bsub>j-1\<^esub>)) mod n\<^sub>j\<close>.
\<close>

theorem C1_default_grid_order:
  assumes points: "list_all (\<lambda>d. 2 \<le> number_of_points d) dims"
      and axes: "2 \<le> length dims"
  shows "\<exists>g. make_default_control_point_grid None (Some dims) = Inr (Some g)
           \<and> int (length g) = prod_list (map number_of_points dims)
           \<and> (\<forall>k < length g. \<exists>vars. g ! k = Tuple (map VarLoc vars)
                 \<and> length vars = length dims
                 \<and> (\<forall>j < length dims.
                       current_position (vars ! j) =
                         real ((k div prod_list (map (\<lambda>d. nat (number_of_points d)) (take j dims)))
                                 mod nat (number_of_points (dims ! j)))
                           / real_of_int (number_of_points (dims ! j) - 1)))"
proof -
  let ?ns = "map number_of_points dims"
  have all: "list_all (\<lambda>n. 2 \<le> n) ?ns" using points by (simp add: list_all_iff)
  have ne: "?ns \<noteq> []" using axes by auto
  obtain g where g: "bind_result (value_ranges (rev ?ns)) (\<lambda>ranges. build_grid ranges None) = Inr (Some g)"
    and len: "length g = prod_list (map nat ?ns)"
    and ent: "\<And>k. k < length g \<Longrightarrow> \<exists>vars. as_list (g ! k) = map VarLoc vars
                 \<and> (2 \<le> length ?ns \<longrightarrow> g ! k = Tuple (map VarLoc vars))
                 \<and> length vars = length ?ns
                 \<and> (\<forall>j < length ?ns.
                       current_position (vars ! j) =
                         real ((k div prod_list (map nat (take j ?ns))) mod nat (?ns ! j))
                           / real_of_int (?ns ! j - 1))"
    using default_grid_entries [OF all ne] by blast
  have res: "make_default_control_point_grid None (Some dims) = Inr (Some g)"
    using g by (simp add: make_default_control_point_grid_def)
  have "int (prod_list (map nat ?ns)) = prod_list ?ns"
    using points by (induction dims) simp_all
  then have len': "int (length g) = prod_list ?ns" using len by simp
  have ent': "\<exists>vars. g ! k = Tuple (map VarLoc vars)
                 \<and> length vars = length dims
                 \<and> (\<forall>j < length dims.
                       current_position (vars ! j) =
                         real ((k div prod_list (map (\<lambda>d. nat (number_of_points d)) (take j dims)))
                                 mod nat (number_of_points (dims ! j)))
                           / real_of_int (number_of_points (dims ! j) - 1))"
    if "k < length g" for k
    using ent [OF that] axes by (auto simp: take_map comp_def)
  show ?thesis using res len' ent' by blast
qed

text \<open>
  C1 as stated fails: for axes with 2 and 3 points the entry at flattened index 1 is
  \<open>(1, 0)\<close>; the first axis has moved and the last has not, whereas with the last axis
  fastest it would hold the values with indices 0 and 1, that is \<open>(0, 1/2)\<close>.
\<close>

theorem C1_counterexample:
  "make_default_control_point_grid None
     (Some [\<lparr>name = ''u'', number_of_points = 2, degree = 1, knot_vector = Some [0, 0, 1, 1]\<rparr>,
            \<lparr>name = ''v'', number_of_points = 3, degree = 1, knot_vector = Some [0, 0, 1/2, 1, 1]\<rparr>])
   = Inr (Some
      [Tuple [VarLoc \<lparr>current_position = 0, min_value = 0, max_value = 1/2, n_steps = Some 10,
               step = 1/20, priv_is_action = None, priv_original_position = None\<rparr>,
              VarLoc \<lparr>current_position = 0, min_value = 0, max_value = 1/4, n_steps = Some 10,
               step = 1/40, priv_is_action = None, priv_original_position = None\<rparr>],
       Tuple [VarLoc \<lparr>current_position = 1, min_value = 1/2, max_value = 1, n_steps = Some 10,
               step = 1/20, priv_is_action = None, priv_original_position = None\<rparr>,
              VarLoc \<lparr>current_position = 0, min_value = 0, max_value = 1/4, n_steps = Some 10,
               step = 1/40, priv_is_action = None, priv_original_position = None\<rparr>],
       Tuple [VarLoc \<lparr>current_position = 0, min_value = 0, max_value = 1/2, n_steps = Some 10,
               step = 1/20, priv_is_action = None, priv_original_position = None\<rparr>,
              VarLoc \<lparr>current_position = 1/2, min_value = 1/4, max_value = 3/4, n_steps = Some 10,
               step = 1/20, priv_is_action = None, priv_original_position = None\<rparr>],
       Tuple [VarLoc \<lparr>current_position = 1, min_value = 1/2, max_value = 1, n_steps = Some 10,
               step = 1/20, priv_is_action = None, priv_original_position = None\<rparr>,
              VarLoc \<lparr>current_position = 1/2, min_value = 1/4, max_value = 3/4, n_steps = Some 10,
               step = 1/20, priv_is_action = None, priv_original_position = None\<rparr>],
       Tuple [VarLoc \<lparr>current_position = 0, min_value = 0, max_value = 1/2, n_steps = Some 10,
               step = 1/20, priv_is_action = None, priv_original_position = None\<rparr>,
              VarLoc \<lparr>current_position = 1, min_value = 3/4, max_value = 1, n_steps = Some 10,
               step = 1/40, priv_is_action = None, priv_original_position = None\<rparr>],
       Tuple [VarLoc \<lparr>current_position = 1, min_value = 1/2, max_value = 1, n_steps = Some 10,
               step = 1/20, priv_is_action = None, priv_original_position = None\<rparr>,
              VarLoc \<lparr>current_position = 1, min_value = 3/4, max_value = 1, n_steps = Some 10,
               step = 1/40, priv_is_action = None, priv_original_position = None\<rparr>]])
   \<and> last_axis_fastest [2, 3] 1 0 = 0
   \<and> last_axis_fastest [2, 3] 1 1 = 1"
proof -
  have ranges: "value_ranges [3, 2] = Inr [([0, 1/2, 1], 1/4), ([0, 1], 1/2)]"
    by (simp add: bind_result_def dim_spacing_of_def linspace_def eval_nat_numeral upt_rec)
  have grid: "build_grid [([0, 1/2, 1], 1/4), ([0, 1], 1/2)] None =
      Inr (Some
      [Tuple [VarLoc \<lparr>current_position = 0, min_value = 0, max_value = 1/2, n_steps = Some 10,
               step = 1/20, priv_is_action = None, priv_original_position = None\<rparr>,
              VarLoc \<lparr>current_position = 0, min_value = 0, max_value = 1/4, n_steps = Some 10,
               step = 1/40, priv_is_action = None, priv_original_position = None\<rparr>],
       Tuple [VarLoc \<lparr>current_position = 1, min_value = 1/2, max_value = 1, n_steps = Some 10,
               step = 1/20, priv_is_action = None, priv_original_position = None\<rparr>,
              VarLoc \<lparr>current_position = 0, min_value = 0, max_value = 1/4, n_steps = Some 10,
               step = 1/40, priv_is_action = None, priv_original_position = None\<rparr>],
       Tuple [VarLoc \<lparr>current_position = 0, min_value = 0, max_value = 1/2, n_steps = Some 10,
               step = 1/20, priv_is_action = None, priv_original_position = None\<rparr>,
              VarLoc \<lparr>current_position = 1/2, min_value = 1/4, max_value = 3/4, n_steps = Some 10,
               step = 1/20, priv_is_action = None, priv_original_position = None\<rparr>],
       Tuple [VarLoc \<lparr>current_position = 1, min_value = 1/2, max_value = 1, n_steps = Some 10,
               step = 1/20, priv_is_action = None, priv_original_position = None\<rparr>,
              VarLoc \<lparr>current_position = 1/2, min_value = 1/4, max_value = 3/4, n_steps = Some 10,
               step = 1/20, priv_is_action = None, priv_original_position = None\<rparr>],
       Tuple [VarLoc \<lparr>current_position = 0, min_value = 0, max_value = 1/2, n_steps = Some 10,
               step = 1/20, priv_is_action = None, priv_original_position = None\<rparr>,
              VarLoc \<lparr>current_position = 1, min_value = 3/4, max_value = 1, n_steps = Some 10,
               step = 1/40, priv_is_action = None, priv_original_position = None\<rparr>],
       Tuple [VarLoc \<lparr>current_position = 1, min_value = 1/2, max_value = 1, n_steps = Some 10,
               step = 1/20, priv_is_action = None, priv_original_position = None\<rparr>,
              VarLoc \<lparr>current_position = 1, min_value = 3/4, max_value = 1, n_steps = Some 10,
               step = 1/40, priv_is_action = None, priv_original_position = None\<rparr>]])"
    by (simp add: bind_result_def grid_variable_def VariableLocation_init_def
        set_variable_to_current_position_if_not_given_def max_value_is_greater_than_min_value_def
        validate_n_steps_def n_steps_default_def define_step_def)
  show ?thesis
    by (simp del: value_ranges.simps build_grid.simps
        add: make_default_control_point_grid_def ranges grid bind_result_def last_axis_fastest_def)
qed

theorem C1_witness:
  "list_all (\<lambda>d. 2 \<le> number_of_points d)
     [\<lparr>name = ''u'', number_of_points = 2, degree = 1, knot_vector = Some [0, 0, 1, 1]\<rparr>,
            \<lparr>name = ''v'', number_of_points = 3, degree = 1, knot_vector = Some [0, 0, 1/2, 1, 1]\<rparr>]
   \<and> (\<exists>g. make_default_control_point_grid None
            (Some [\<lparr>name = ''u'', number_of_points = 2, degree = 1, knot_vector = Some [0, 0, 1, 1]\<rparr>,
            \<lparr>name = ''v'', number_of_points = 3, degree = 1, knot_vector = Some [0, 0, 1/2, 1, 1]\<rparr>])
          = Inr (Some g)
        \<and> length g = 6
        \<and> (\<exists>vars. g ! 1 = Tuple (map VarLoc vars) \<and> map current_position vars = [1, 0]))"
proof -
  let ?dims = "[\<lparr>name = ''u'', number_of_points = 2, degree = 1, knot_vector = Some [0, 0, 1, 1]\<rparr>,
            \<lparr>name = ''v'', number_of_points = 3, degree = 1, knot_vector = Some [0, 0, 1/2, 1, 1]\<rparr>]"
  have p: "list_all (\<lambda>d. 2 \<le> number_of_points d) ?dims" by simp
  have a: "2 \<le> length ?dims" by simp
  obtain g where g: "make_default_control_point_grid None (Some ?dims) = Inr (Some g)"
    and len: "int (length g) = prod_list (map number_of_points ?dims)"
    and ent: "\<And>k. k < length g \<Longrightarrow> \<exists>vars. g ! k = Tuple (map VarLoc vars)
                 \<and> length vars = length ?dims
                 \<and> (\<forall>j < length ?dims.
                       current_position (vars ! j) =
                         real ((k div prod_list (map (\<lambda>d. nat (number_of_points d)) (take j ?dims)))
                                 mod nat (number_of_points (?dims ! j)))
                           / real_of_int (number_of_points (?dims ! j) - 1))"
    using C1_default_grid_order [OF p a] by blast
  have l6: "length g = 6" using len by simp
  then have "1 < length g" by simp
  from ent [OF this] obtain vars where v: "g ! 1 = Tuple (map VarLoc vars)" "length vars = 2"
    and pos: "\<And>j. j < 2 \<Longrightarrow> current_position (vars ! j) =
                         real ((1 div prod_list (map (\<lambda>d. nat (number_of_points d)) (take j ?dims)))
                                 mod nat (number_of_points (?dims ! j)))
                           / real_of_int (number_of_points (?dims ! j) - 1)"
    by auto
  have "current_position (vars ! 0) = 1" using pos [of 0] by simp
  moreover have "current_position (vars ! 1) = 0" using pos [of 1] by simp
  ultimately have "map current_position vars = [1, 0]"
    using v(2) by (cases vars; cases "tl vars") auto
  then have "\<exists>vars. g ! 1 = Tuple (map VarLoc vars) \<and> map current_position vars = [1, 0]"
    using v(1) by (intro exI [of _ vars] conjI)
  then have "\<exists>g. make_default_control_point_grid None (Some ?dims) = Inr (Some g)
        \<and> length g = 6
        \<and> (\<exists>vars. g ! 1 = Tuple (map VarLoc vars) \<and> map current_position vars = [1, 0])"
    using g l6 by (intro exI [of _ g] conjI)
  then show ?thesis using p by (intro conjI)
qed




end
